theory Spec2Isabelle
  imports Main "HOL-Library.Sublist"
begin

section \<open>JavaScript strings and values\<close>

text \<open>
  A JavaScript string is a sequence of code units. The model uses \<^typ>\<open>string\<close>, so it
  covers the code units below 256 (Latin-1); \<open>length\<close>, \<open>take\<close> and \<open>drop\<close> then count
  what \<^verbatim>\<open>.length\<close> and \<^verbatim>\<open>.substring\<close> count.
\<close>

text \<open>The characters matched by \<^verbatim>\<open>\s\<close> and removed by \<^verbatim>\<open>trim()\<close>: TAB, LF, VT, FF, CR,
  space and NBSP (the remaining ones lie above Latin-1).\<close>

definition js_space :: "char \<Rightarrow> bool" where
  "js_space c = (c \<in> set [CHR 0x09, CHR 0x0A, CHR 0x0B, CHR 0x0C, CHR 0x0D, CHR '' '', CHR 0xA0])"

text \<open>The characters matched by \<^verbatim>\<open>\w\<close>: \<^verbatim>\<open>[A-Za-z0-9_]\<close>.\<close>

definition js_word :: "char \<Rightarrow> bool" where
  "js_word c = (let n = (of_char c :: nat) in
     (97 \<le> n \<and> n \<le> 122) \<or> (65 \<le> n \<and> n \<le> 90) \<or> (48 \<le> n \<and> n \<le> 57) \<or> n = 95)"

definition trimStart :: "string \<Rightarrow> string" where
  "trimStart s = dropWhile js_space s"

definition trimEnd :: "string \<Rightarrow> string" where
  "trimEnd s = rev (dropWhile js_space (rev s))"

definition trim :: "string \<Rightarrow> string" where
  "trim s = trimEnd (trimStart s)"

definition startsWith :: "string \<Rightarrow> string \<Rightarrow> bool" where
  "startsWith s p = (take (length p) s = p)"

text \<open>\<^verbatim>\<open>toLowerCase()\<close> on Latin-1: A-Z and the accented capitals 0xC0-0xDE (without the
  multiplication sign 0xD7) move up by 32.\<close>

definition toLowerCase_char :: "char \<Rightarrow> char" where
  "toLowerCase_char c = (let n = (of_char c :: nat) in
     if (65 \<le> n \<and> n \<le> 90) \<or> (192 \<le> n \<and> n \<le> 222 \<and> n \<noteq> 215)
     then char_of (n + 32) else c)"

definition toLowerCase :: "string \<Rightarrow> string" where
  "toLowerCase s = map toLowerCase_char s"

text \<open>\<^verbatim>\<open>String(n)\<close> of an integer below \<open>10\<^sup>2\<^sup>1\<close> in absolute value: its decimal digits.\<close>

definition digit_char :: "nat \<Rightarrow> char" where
  "digit_char d = ''0123456789'' ! d"

function nat_str :: "nat \<Rightarrow> string" where
  "nat_str n = (if n < 10 then [digit_char n] else nat_str (n div 10) @ [digit_char (n mod 10)])"
  by pat_completeness auto
termination
  by (relation "measure id") auto

declare nat_str.simps [simp del]

definition num_str :: "int \<Rightarrow> string" where
  "num_str i = (if i < 0 then CHR ''-'' # nat_str (nat (- i)) else nat_str (nat i))"

text \<open>
  Values as they come out of \<^verbatim>\<open>JSON.parse\<close> and \<^verbatim>\<open>response.json()\<close>, with
  \<^verbatim>\<open>undefined\<close> for what a property read can add. Numbers are integers. An object is
  the list of its properties; a property is read with \<open>map_of\<close>.
\<close>

datatype jsval =
    JUndefined
  | JNull
  | JBool bool
  | JNum int
  | JStr string
  | JArr "jsval list"
  | JObj "(string \<times> jsval) list"

datatype exn = TypeError | SyntaxError | NetworkFailure | Error string

fun truthy :: "jsval \<Rightarrow> bool" where
  "truthy JUndefined = False"
| "truthy JNull = False"
| "truthy (JBool b) = b"
| "truthy (JNum n) = (n \<noteq> 0)"
| "truthy (JStr s) = (s \<noteq> [])"
| "truthy (JArr xs) = True"
| "truthy (JObj kvs) = True"

text \<open>\<^verbatim>\<open>a || b\<close>\<close>

definition js_or :: "jsval \<Rightarrow> jsval \<Rightarrow> jsval" where
  "js_or a b = (if truthy a then a else b)"

fun nullish :: "jsval \<Rightarrow> bool" where
  "nullish JUndefined = True"
| "nullish JNull = True"
| "nullish v = False"

text \<open>
  \<^verbatim>\<open>v.k\<close> for the property names this program reads on parsed JSON (\<^verbatim>\<open>hits\<close>,
  \<^verbatim>\<open>largeImageURL\<close>, \<^verbatim>\<open>choices\<close>, \<^verbatim>\<open>id\<close>, \<^verbatim>\<open>title\<close>, ...): none of them is a
  built-in property of a string, number, boolean or array, so only an object can have
  one, and reading it on \<^verbatim>\<open>null\<close> or \<^verbatim>\<open>undefined\<close> throws a TypeError.
\<close>

fun getProp :: "jsval \<Rightarrow> string \<Rightarrow> exn + jsval" where
  "getProp JUndefined k = Inl TypeError"
| "getProp JNull k = Inl TypeError"
| "getProp (JObj kvs) k = Inr (case map_of kvs k of None \<Rightarrow> JUndefined | Some v \<Rightarrow> v)"
| "getProp v k = Inr JUndefined"

text \<open>\<^verbatim>\<open>v?.k\<close>\<close>

definition optProp :: "jsval \<Rightarrow> string \<Rightarrow> jsval" where
  "optProp v k = (case getProp v k of Inl e \<Rightarrow> JUndefined | Inr x \<Rightarrow> x)"

text \<open>\<^verbatim>\<open>v?.[0]\<close>: the first element of an array, the property \<^verbatim>\<open>"0"\<close> of an object, the
  first character of a string.\<close>

fun optIndex0 :: "jsval \<Rightarrow> jsval" where
  "optIndex0 (JArr xs) = (case xs of [] \<Rightarrow> JUndefined | x # _ \<Rightarrow> x)"
| "optIndex0 (JObj kvs) = (case map_of kvs ''0'' of None \<Rightarrow> JUndefined | Some v \<Rightarrow> v)"
| "optIndex0 (JStr s) = (case s of [] \<Rightarrow> JUndefined | c # _ \<Rightarrow> JStr [c])"
| "optIndex0 v = JUndefined"

text \<open>What \<^verbatim>\<open>JSON.stringify\<close> keeps of an object or array literal built by the program:
  a property whose value is \<^verbatim>\<open>undefined\<close> is left out, an \<^verbatim>\<open>undefined\<close> array element
  becomes \<^verbatim>\<open>null\<close>.\<close>

definition jsonObj :: "(string \<times> jsval) list \<Rightarrow> jsval" where
  "jsonObj kvs = JObj (filter (\<lambda>kv. snd kv \<noteq> JUndefined) kvs)"

definition jsonArr :: "jsval list \<Rightarrow> jsval" where
  "jsonArr xs = JArr (map (\<lambda>v. if v = JUndefined then JNull else v) xs)"

section \<open>The environment: configuration, platform and network\<close>

type_synonym auth = "string \<times> string"

text \<open>
  One constructor for each request the routes send; the URL text, the fixed headers and
  the fixed parts of the body are those of the source:
  \<^item> \<open>PixabaySearch key q\<close>: GET \<^verbatim>\<open>https://pixabay.com/api/?key=..&q=..&image_type=photo&orientation=horizontal&per_page=3&safesearch=true\<close>
  \<^item> \<open>OpenAIChat key model title content excerpt\<close>: POST \<^verbatim>\<open>https://api.openai.com/v1/chat/completions\<close>
    with the prompt template filled with title, content and excerpt
  \<^item> \<open>WpUsers a slug\<close>, \<open>WpCategories a slug\<close>, \<open>WpTags a slug\<close>:
    GET \<^verbatim>\<open>/wp/v2/users|categories|tags?slug=..&_fields=id\<close>
  \<^item> \<open>ImageGet url\<close>: GET of the image
  \<^item> \<open>WpMedia a contentType filename bytes\<close>: POST \<^verbatim>\<open>/wp/v2/media\<close>
  \<^item> \<open>WpPostPut a id body\<close>: PUT \<^verbatim>\<open>/wp/v2/posts/{id}\<close>
  \<^item> \<open>WpPostPost a id body\<close>: POST \<^verbatim>\<open>/wp/v2/posts/{id}\<close>
  \<^item> \<open>WpPostsList base a status perPage\<close>:
    GET \<^verbatim>\<open>{base}/wp-json/wp/v2/posts?status=..&per_page=..&_embed\<close>
  The pair \<open>a\<close> is the user name and password of the Basic authorization header.
\<close>

datatype request =
    PixabaySearch string string
  | OpenAIChat string string string string string
  | WpUsers auth string
  | WpCategories auth string
  | WpTags auth string
  | ImageGet string
  | WpMedia auth string string string
  | WpPostPut auth int jsval
  | WpPostPost auth int jsval
  | WpPostsList string auth string string

text \<open>A response: \<open>json\<close> is what \<^verbatim>\<open>response.json()\<close> resolves to and \<open>blob\<close> the
  type and the bytes that \<^verbatim>\<open>response.blob()\<close> resolves to (\<open>None\<close> when they reject).
  \<^verbatim>\<open>response.ok\<close> is a status in the range 200-299. \<^verbatim>\<open>response.text()\<close> only feeds the
  log and the message of an exception that is caught, so it is left out.\<close>

record response =
  statusCode :: nat
  json :: "jsval option"
  blob :: "(string \<times> string) option"

definition ok :: "response \<Rightarrow> bool" where
  "ok r = (200 \<le> statusCode r \<and> statusCode r \<le> 299)"

text \<open>What a run leaves behind: the requests sent, in order, and the calls of the image
  search.\<close>

datatype event = Fetched request | SearchPixabayCalled jsval

text \<open>
  The environment of a run. The variables of \<^verbatim>\<open>process.env\<close> are \<open>None\<close> when unset.
  \<open>fetch\<close> is the remote side: its answer to a request may depend on everything that
  happened before; \<open>None\<close> is a rejected \<^verbatim>\<open>fetch\<close> (transport error). \<open>JSON_parse\<close> is
  the platform's parser (\<open>None\<close> when it throws). \<open>js_positive\<close> is the platform's
  \<^verbatim>\<open>v > 0\<close> on strings, arrays and objects, where it goes through the conversion to a
  number.
\<close>

record env =
  OPENAI_API_KEY :: "string option"
  OPENAI_MODEL :: "string option"
  PIXABAY_API_KEY :: "string option"
  WORDPRESS_USERNAME :: "string option"
  WORDPRESS_PASSWORD :: "string option"
  WORDPRESS_URL :: "string option"
  fetch :: "event list \<Rightarrow> request \<Rightarrow> response option"
  JSON_parse :: "string \<Rightarrow> jsval option"
  js_positive :: "jsval \<Rightarrow> bool"
  Date_now :: nat

text \<open>\<^verbatim>\<open>!x\<close> is false: the variable is set and not empty.\<close>

definition present :: "string option \<Rightarrow> bool" where
  "present v = (case v of None \<Rightarrow> False | Some s \<Rightarrow> s \<noteq> [])"

text \<open>\<^verbatim>\<open>process.env.X ?? ''\<close>\<close>

definition orEmpty :: "string option \<Rightarrow> string" where
  "orEmpty v = (case v of None \<Rightarrow> [] | Some s \<Rightarrow> s)"

text \<open>A route's answer: the HTTP status and the JSON body.\<close>

type_synonym reply = "nat \<times> jsval"

definition NextResponse_json :: "nat \<Rightarrow> (string \<times> jsval) list \<Rightarrow> reply" where
  "NextResponse_json st kvs = (st, jsonObj kvs)"

section \<open>The optimize route: image search and generation\<close>

subsection \<open>searchPixabay\<close>

text \<open>\<^verbatim>\<open>replace(/[^\w\s-]/g, '')\<close>\<close>

definition removeSpecial :: "string \<Rightarrow> string" where
  "removeSpecial s = filter (\<lambda>c. js_word c \<or> js_space c \<or> c = CHR ''-'') s"

text \<open>\<^verbatim>\<open>replace(/\s+/g, ' ')\<close>: every maximal run of white space becomes one space.\<close>

function collapseSpaces :: "string \<Rightarrow> string" where
  "collapseSpaces [] = []"
| "collapseSpaces (c # cs) =
     (if js_space c then CHR '' '' # collapseSpaces (dropWhile js_space cs)
      else c # collapseSpaces cs)"
  by pat_completeness auto
termination
proof (relation "measure length")
  show "wf (measure length)" by simp
next
  fix c :: char and cs :: string
  have "length (dropWhile js_space cs) \<le> length cs" by (rule length_dropWhile_le)
  then show "(dropWhile js_space cs, c # cs) \<in> measure length" by simp
next
  fix c :: char and cs :: string
  show "(cs, c # cs) \<in> measure length" by simp
qed

text \<open>\<^verbatim>\<open>replace(/\s+\S*$/, '')\<close>: the leftmost match that reaches the end of the string
  starts at the last run of white space; without white space nothing matches.\<close>

definition dropLastWord :: "string \<Rightarrow> string" where
  "dropLastWord s =
     (let r = dropWhile (\<lambda>c. \<not> js_space c) (rev s)
      in if r = [] then s else rev (dropWhile js_space r))"

text \<open>Lines 25-32, applied to the trimmed query.\<close>

definition cleanQuery :: "string \<Rightarrow> string" where
  "cleanQuery sq = trim (collapseSpaces (removeSpecial sq))"

definition normalizeQuery :: "string \<Rightarrow> string" where
  "normalizeQuery sq =
     (let c = cleanQuery sq
      in if length c > 100 then dropLastWord (take 100 c) else c)"


record image =
  url :: jsval
  source :: string

text \<open>\<^verbatim>\<open>data.hits.find((hit) => hit.largeImageURL)\<close>: the callback throws on a
  \<^verbatim>\<open>null\<close> element.\<close>

fun findLarge :: "jsval list \<Rightarrow> exn + jsval option" where
  "findLarge [] = Inr None"
| "findLarge (h # hs) =
     (case getProp h ''largeImageURL'' of
        Inl e \<Rightarrow> Inl e
      | Inr v \<Rightarrow> if truthy v then Inr (Some h) else findLarge hs)"

text \<open>
  Lines 59-70, on the parsed body. When \<^verbatim>\<open>data.hits\<close> is not an array the result is
  \<^verbatim>\<open>null\<close> whatever its \<^verbatim>\<open>length\<close>: either the test fails or \<^verbatim>\<open>find\<close> is not a
  function and the TypeError is caught.
\<close>

definition pickImage :: "jsval \<Rightarrow> exn + image option" where
  "pickImage data =
     (case getProp data ''hits'' of
        Inl e \<Rightarrow> Inl e
      | Inr hits \<Rightarrow>
         (case hits of
            JArr (h # hs) \<Rightarrow>
              (case findLarge (h # hs) of
                 Inl e \<Rightarrow> Inl e
               | Inr found \<Rightarrow>
                  (let bestImage = (case found of Some b \<Rightarrow> b | None \<Rightarrow> h)
                   in case getProp bestImage ''largeImageURL'' of
                        Inl e \<Rightarrow> Inl e
                      | Inr large \<Rightarrow>
                         (case getProp bestImage ''webformatURL'' of
                            Inl e \<Rightarrow> Inl e
                          | Inr web \<Rightarrow>
                             Inr (Some \<lparr>url = js_or large web, source = ''Pixabay''\<rparr>))))
          | JArr [] \<Rightarrow> Inr None
          | JStr (c # cs) \<Rightarrow> Inl TypeError
          | JObj kvs \<Rightarrow> Inr None
          | _ \<Rightarrow> Inr None))"

text \<open>The \<^verbatim>\<open>try\<close> block of lines 34-74: every failure is caught and gives \<^verbatim>\<open>null\<close>.\<close>

definition readSearchResponse :: "response option \<Rightarrow> image option" where
  "readSearchResponse res =
     (case res of
        None \<Rightarrow> None
      | Some r \<Rightarrow>
         if \<not> ok r then None
         else (case json r of
                 None \<Rightarrow> None
               | Some data \<Rightarrow> (case pickImage data of Inl e \<Rightarrow> None | Inr im \<Rightarrow> im)))"

text \<open>
  \<^verbatim>\<open>searchPixabay(query)\<close>. The caller in the generation path passes whatever the
  parsed response holds, so the argument is a value: on anything but a string
  \<^verbatim>\<open>query.trim()\<close> throws, outside the \<^verbatim>\<open>try\<close>. The call itself is recorded first.
\<close>

definition searchPixabay :: "env \<Rightarrow> event list \<Rightarrow> jsval \<Rightarrow> (exn + image option) \<times> event list" where
  "searchPixabay w tr query =
     (let tr0 = tr @ [SearchPixabayCalled query]
      in if \<not> present (PIXABAY_API_KEY w) then (Inr None, tr0)
         else (case query of
                 JStr q \<Rightarrow>
                   (let searchQuery = trim q
                    in if searchQuery = [] \<or> length searchQuery < 3 then (Inr None, tr0)
                       else (let req = PixabaySearch (orEmpty (PIXABAY_API_KEY w))
                                         (normalizeQuery searchQuery)
                             in (Inr (readSearchResponse (fetch w tr0 req)),
                                 tr0 @ [Fetched req])))
               | _ \<Rightarrow> (Inl TypeError, tr0)))"

subsection \<open>optimizeWithAI\<close>

text \<open>\<^verbatim>\<open>replace(/<[^>]*>/g, '')\<close>: a \<^verbatim>\<open><\<close> with a \<^verbatim>\<open>>\<close> somewhere after it is removed
  together with everything up to the first such \<^verbatim>\<open>>\<close>.\<close>

function stripTags :: "string \<Rightarrow> string" where
  "stripTags [] = []"
| "stripTags (c # cs) =
     (if c = CHR ''<'' \<and> CHR ''>'' \<in> set cs
      then stripTags (tl (dropWhile (\<lambda>x. x \<noteq> CHR ''>'') cs))
      else c # stripTags cs)"
  by pat_completeness auto
termination
proof (relation "measure length")
  show "wf (measure length)" by simp
next
  fix c :: char and cs :: string
  have "length (dropWhile (\<lambda>x. x \<noteq> CHR ''>'') cs) \<le> length cs"
    by (rule length_dropWhile_le)
  then show "(tl (dropWhile (\<lambda>x. x \<noteq> CHR ''>'') cs), c # cs) \<in> measure length" by simp
next
  fix c :: char and cs :: string
  show "(cs, c # cs) \<in> measure length" by simp
qed

text \<open>
  \<^verbatim>\<open>replace(/```json\s*|\s*```/g, '')\<close>, scanning from the left: at each position
  the first alternative is tried first; the second one matches when the white space
  starting there is followed by three backticks. A match is removed and the scan goes
  on behind it, otherwise the character is kept.
\<close>

function stripFences :: "string \<Rightarrow> string" where
  "stripFences s =
     (if startsWith s ''```json'' then stripFences (trimStart (drop 7 s))
      else if startsWith (trimStart s) ''```'' then stripFences (drop 3 (trimStart s))
      else (case s of [] \<Rightarrow> [] | c # cs \<Rightarrow> c # stripFences cs))"
  by pat_completeness auto
termination
proof -
  have len: "length p \<le> length t" if "startsWith t p" for t p :: string
  proof -
    from that have "length (take (length p) t) = length p" by (simp add: startsWith_def)
    then show ?thesis by simp
  qed
  show ?thesis
  proof (relation "measure length")
    show "wf (measure length)" by simp
  next
    fix s :: string
    assume "startsWith s ''```json''"
    then have "7 \<le> length s" using len by fastforce
    moreover have "length (trimStart (drop 7 s)) \<le> length (drop 7 s)"
      unfolding trimStart_def by (rule length_dropWhile_le)
    ultimately show "(trimStart (drop 7 s), s) \<in> measure length" by simp
  next
    fix s :: string
    assume "startsWith (trimStart s) ''```''"
    then have "3 \<le> length (trimStart s)" using len by fastforce
    moreover have "length (trimStart s) \<le> length s"
      unfolding trimStart_def by (rule length_dropWhile_le)
    ultimately show "(drop 3 (trimStart s), s) \<in> measure length" by simp
  next
    fix s :: string and c cs
    assume "s = c # cs"
    then show "(cs, s) \<in> measure length" by simp
  qed
qed

declare stripFences.simps [simp del]

text \<open>Line 200: \<^verbatim>\<open>aiContent.replace(/```json\s*|\s*```/g, '').trim()\<close>\<close>

definition cleanedContent :: "string \<Rightarrow> string" where
  "cleanedContent aiContent = trim (stripFences aiContent)"

record optimization =
  opt_optimizedTitle :: jsval
  opt_optimizedContent :: jsval
  opt_suggestedImage :: jsval
  opt_imageSource :: jsval
  opt_keywords :: jsval
  opt_seoScore :: jsval
  opt_seoTitle :: jsval
  opt_seoDescription :: jsval
  opt_category :: jsval
  opt_tags :: jsval
  opt_detectedAuthor :: jsval

text \<open>\<^verbatim>\<open>imageResult?.url || ''\<close> and \<^verbatim>\<open>imageResult?.source || 'No image found'\<close>\<close>

definition imageUrlOr :: "image option \<Rightarrow> jsval" where
  "imageUrlOr im = (case im of None \<Rightarrow> JStr [] | Some i \<Rightarrow> js_or (url i) (JStr []))"

definition imageSourceOr :: "image option \<Rightarrow> jsval" where
  "imageSourceOr im =
     (case im of None \<Rightarrow> JStr ''No image found''
      | Some i \<Rightarrow> js_or (JStr (source i)) (JStr ''No image found''))"

text \<open>Lines 94-112: the result without a generation key.\<close>

definition mockResult :: "string \<Rightarrow> string \<Rightarrow> string \<Rightarrow> image option \<Rightarrow> optimization" where
  "mockResult title content excerpt imageResult =
     (let query = trim (stripTags title)
      in \<lparr>opt_optimizedTitle = JStr (trim (stripTags title) @ '' - Enhanced''),
          opt_optimizedContent = JStr content,
          opt_suggestedImage = imageUrlOr imageResult,
          opt_imageSource = imageSourceOr imageResult,
          opt_keywords = JArr [JStr query],
          opt_seoScore = JNum 65,
          opt_seoTitle = JStr (take 60 query),
          opt_seoDescription = JStr (take 160 (trim (stripTags excerpt))),
          opt_category = JStr ''ai-technology'',
          opt_tags = JArr [JStr ''news'', JStr ''update'', JStr ''trending''],
          opt_detectedAuthor = JStr ''jmason''\<rparr>)"

text \<open>Line 192: \<^verbatim>\<open>data.choices?.[0]?.message?.content\<close>\<close>

definition aiContentOf :: "jsval \<Rightarrow> exn + jsval" where
  "aiContentOf data =
     (case getProp data ''choices'' of
        Inl e \<Rightarrow> Inl e
      | Inr choices \<Rightarrow>
         Inr (if nullish choices then JUndefined
              else (let c0 = optIndex0 choices
                    in if nullish c0 then JUndefined
                       else (let m = optProp c0 ''message''
                             in if nullish m then JUndefined else optProp m ''content''))))"

text \<open>Lines 198-205: a value that is not a string has no \<^verbatim>\<open>replace\<close>, and the TypeError
  is caught like the parser's SyntaxError.\<close>

definition parseAiContent :: "env \<Rightarrow> jsval \<Rightarrow> exn + jsval" where
  "parseAiContent w aiContent =
     (case aiContent of
        JStr s \<Rightarrow>
          (case JSON_parse w (cleanedContent s) of
             None \<Rightarrow> Inl (Error ''Failed to parse AI response'')
           | Some parsed \<Rightarrow> Inr parsed)
      | _ \<Rightarrow> Inl (Error ''Failed to parse AI response''))"

text \<open>Lines 219-231, \<open>f k\<close> standing for \<^verbatim>\<open>parsed.k\<close>.\<close>

definition parsedResult ::
  "(string \<Rightarrow> jsval) \<Rightarrow> string \<Rightarrow> string \<Rightarrow> string \<Rightarrow> image option \<Rightarrow> optimization" where
  "parsedResult f title content excerpt imageResult =
     (let query = trim (stripTags title)
      in \<lparr>opt_optimizedTitle = js_or (f ''optimizedTitle'') (JStr title),
          opt_optimizedContent = js_or (f ''optimizedContent'') (JStr content),
          opt_suggestedImage = imageUrlOr imageResult,
          opt_imageSource = imageSourceOr imageResult,
          opt_keywords = js_or (f ''keywords'') (JArr [JStr query]),
          opt_seoScore = js_or (f ''seoScore'') (JNum 70),
          opt_seoTitle = js_or (f ''seoTitle'') (JStr (take 60 query)),
          opt_seoDescription = js_or (f ''seoDescription'') (JStr (take 160 (trim (stripTags excerpt)))),
          opt_category = js_or (f ''category'') (JStr ''ai-technology''),
          opt_tags = js_or (f ''tags'') (JArr [JStr ''content'']),
          opt_detectedAuthor = js_or (f ''recommendedAuthor'') (JStr ''john-mason'')\<rparr>)"

text \<open>Lines 163-184: the request to the generation service, with the model of
  \<^verbatim>\<open>process.env.OPENAI_MODEL || 'gpt-4o'\<close>.\<close>

definition generationRequest :: "env \<Rightarrow> string \<Rightarrow> string \<Rightarrow> string \<Rightarrow> request" where
  "generationRequest w title content excerpt =
     OpenAIChat (orEmpty (OPENAI_API_KEY w))
       (if present (OPENAI_MODEL w) then orEmpty (OPENAI_MODEL w) else ''gpt-4o'')
       title content excerpt"

text \<open>
  \<^verbatim>\<open>optimizeWithAI(title, content, excerpt)\<close>. \<open>Inl\<close> is the exception that leaves the
  function: the \<^verbatim>\<open>catch\<close> of line 232 throws again what it caught.
\<close>

definition optimizeWithAI ::
  "env \<Rightarrow> event list \<Rightarrow> string \<Rightarrow> string \<Rightarrow> string \<Rightarrow> (exn + optimization) \<times> event list" where
  "optimizeWithAI w tr title content excerpt =
     (let query = trim (stripTags title)
      in if \<not> present (OPENAI_API_KEY w) then
           (case searchPixabay w tr (JStr query) of
              (Inl e, tr1) \<Rightarrow> (Inl e, tr1)
            | (Inr imageResult, tr1) \<Rightarrow> (Inr (mockResult title content excerpt imageResult), tr1))
         else
           (let req = generationRequest w title content excerpt;
                tr1 = tr @ [Fetched req]
            in case fetch w tr req of
                 None \<Rightarrow> (Inl NetworkFailure, tr1)
               | Some r \<Rightarrow>
                  if \<not> ok r then (Inl (Error (''OpenAI API error: '' @ nat_str (statusCode r))), tr1)
                  else (case json r of
                     None \<Rightarrow> (Inl SyntaxError, tr1)
                   | Some data \<Rightarrow>
                      (case aiContentOf data of
                         Inl e \<Rightarrow> (Inl e, tr1)
                       | Inr aiContent \<Rightarrow>
                          if \<not> truthy aiContent then (Inl (Error ''No content in OpenAI response''), tr1)
                          else (case parseAiContent w aiContent of
                             Inl e \<Rightarrow> (Inl e, tr1)
                           | Inr parsed \<Rightarrow>
                              (case getProp parsed ''imageDescription'' of
                                 Inl e \<Rightarrow> (Inl e, tr1)
                               | Inr descr \<Rightarrow>
                                  (case searchPixabay w tr1 (js_or descr (JStr query)) of
                                     (Inl e, tr2) \<Rightarrow> (Inl e, tr2)
                                   | (Inr imageResult, tr2) \<Rightarrow>
                                      (Inr (parsedResult (optProp parsed) title content excerpt imageResult),
                                       tr2))))))))"

subsection \<open>POST /api/optimize-content\<close>

definition optimizedReply :: "optimization \<Rightarrow> reply" where
  "optimizedReply optimized =
     NextResponse_json 200
       [(''success'', JBool True),
        (''optimizedTitle'', opt_optimizedTitle optimized),
        (''seoTitle'', opt_seoTitle optimized),
        (''seoDescription'', opt_seoDescription optimized),
        (''optimizedContent'', opt_optimizedContent optimized),
        (''suggestedImage'', opt_suggestedImage optimized),
        (''imageSource'', opt_imageSource optimized),
        (''keywords'', opt_keywords optimized),
        (''seoScore'', opt_seoScore optimized),
        (''category'', opt_category optimized),
        (''tags'', opt_tags optimized),
        (''detectedAuthor'', opt_detectedAuthor optimized)]"

text \<open>Lines 261-296, for a request body whose \<^verbatim>\<open>title\<close>, \<^verbatim>\<open>content\<close> and \<^verbatim>\<open>excerpt\<close>
  are strings.\<close>

definition POST_optimize ::
  "env \<Rightarrow> event list \<Rightarrow> string \<Rightarrow> string \<Rightarrow> string \<Rightarrow> reply \<times> event list" where
  "POST_optimize w tr title content excerpt =
     (if \<not> present (OPENAI_API_KEY w) then
        (NextResponse_json 400
           [(''success'', JBool False), (''error'', JStr ''Missing OpenAI API key'')], tr)
      else
        (case optimizeWithAI w tr title content excerpt of
           (Inr optimized, tr1) \<Rightarrow> (optimizedReply optimized, tr1)
         | (Inl e, tr1) \<Rightarrow>
            (NextResponse_json 500
               [(''success'', JBool False), (''error'', JStr ''Failed to optimize content'')], tr1)))"

section \<open>The publish route\<close>

text \<open>\<^verbatim>\<open>WP_USERNAME\<close> and \<^verbatim>\<open>WP_PASSWORD\<close>, as \<^verbatim>\<open>createAuthHeader\<close> receives them.\<close>

definition wpAuth :: "env \<Rightarrow> auth" where
  "wpAuth w = (orEmpty (WORDPRESS_USERNAME w), orEmpty (WORDPRESS_PASSWORD w))"

text \<open>\<^verbatim>\<open>name.toLowerCase().replace(/[^a-z0-9-]/g, '-')\<close>\<close>

definition slug_char :: "char \<Rightarrow> bool" where
  "slug_char c = (let n = (of_char c :: nat) in
     (97 \<le> n \<and> n \<le> 122) \<or> (48 \<le> n \<and> n \<le> 57) \<or> c = CHR ''-'')"

definition slugify :: "string \<Rightarrow> string" where
  "slugify name = map (\<lambda>c. if slug_char c then c else CHR ''-'') (toLowerCase name)"

text \<open>\<^verbatim>\<open>v.length\<close>: built in for arrays and strings, a property like any other on an
  object.\<close>

fun js_length :: "jsval \<Rightarrow> exn + jsval" where
  "js_length (JArr xs) = Inr (JNum (int (length xs)))"
| "js_length (JStr s) = Inr (JNum (int (length s)))"
| "js_length v = getProp v ''length''"

text \<open>\<^verbatim>\<open>v > 0\<close>\<close>

fun gt0 :: "env \<Rightarrow> jsval \<Rightarrow> bool" where
  "gt0 w (JNum n) = (n > 0)"
| "gt0 w (JBool b) = b"
| "gt0 w JNull = False"
| "gt0 w JUndefined = False"
| "gt0 w v = js_positive w v"

text \<open>\<^verbatim>\<open>xs.length > 0 ? xs[0].id : null\<close>\<close>

definition firstId :: "env \<Rightarrow> jsval \<Rightarrow> exn + jsval" where
  "firstId w xs =
     (case js_length xs of
        Inl e \<Rightarrow> Inl e
      | Inr len \<Rightarrow> if gt0 w len then getProp (optIndex0 xs) ''id'' else Inr JNull)"

text \<open>The body shared by \<^verbatim>\<open>getUserIdByName\<close> and \<^verbatim>\<open>getCategoryIdByName\<close> behind the
  \<^verbatim>\<open>fetch\<close>: whatever is thrown is caught and gives \<^verbatim>\<open>null\<close>.\<close>

definition readFirstId :: "env \<Rightarrow> response option \<Rightarrow> jsval" where
  "readFirstId w res =
     (case res of
        None \<Rightarrow> JNull
      | Some r \<Rightarrow>
         if \<not> ok r then JNull
         else (case json r of
                 None \<Rightarrow> JNull
               | Some xs \<Rightarrow> (case firstId w xs of Inl e \<Rightarrow> JNull | Inr v \<Rightarrow> v)))"

definition getUserIdByName :: "env \<Rightarrow> event list \<Rightarrow> string \<Rightarrow> jsval \<times> event list" where
  "getUserIdByName w tr username =
     (let req = WpUsers (wpAuth w) username
      in (readFirstId w (fetch w tr req), tr @ [Fetched req]))"

definition getCategoryIdByName :: "env \<Rightarrow> event list \<Rightarrow> string \<Rightarrow> jsval \<times> event list" where
  "getCategoryIdByName w tr categoryName =
     (let categorySlug = slugify categoryName;
          req = WpCategories (wpAuth w) categorySlug
      in (readFirstId w (fetch w tr req), tr @ [Fetched req]))"

text \<open>The loop of \<^verbatim>\<open>getTagIdsByNames\<close>, with the ids pushed so far.\<close>

fun tagLoop ::
  "env \<Rightarrow> event list \<Rightarrow> jsval list \<Rightarrow> string list \<Rightarrow> (exn + jsval list) \<times> event list" where
  "tagLoop w tr tagIds [] = (Inr tagIds, tr)"
| "tagLoop w tr tagIds (tagName # rest) =
     (let tagSlug = slugify tagName;
          req = WpTags (wpAuth w) tagSlug;
          tr1 = tr @ [Fetched req]
      in case fetch w tr req of
           None \<Rightarrow> (Inl NetworkFailure, tr1)
         | Some r \<Rightarrow>
            if ok r then
              (case json r of
                 None \<Rightarrow> (Inl SyntaxError, tr1)
               | Some tagsFound \<Rightarrow>
                  (case js_length tagsFound of
                     Inl e \<Rightarrow> (Inl e, tr1)
                   | Inr len \<Rightarrow>
                      if gt0 w len then
                        (case getProp (optIndex0 tagsFound) ''id'' of
                           Inl e \<Rightarrow> (Inl e, tr1)
                         | Inr i \<Rightarrow> tagLoop w tr1 (tagIds @ [i]) rest)
                      else tagLoop w tr1 tagIds rest))
            else tagLoop w tr1 tagIds rest)"

text \<open>The \<^verbatim>\<open>catch\<close> returns the empty list, whatever was pushed before.\<close>

definition getTagIdsByNames :: "env \<Rightarrow> event list \<Rightarrow> string list \<Rightarrow> jsval list \<times> event list" where
  "getTagIdsByNames w tr tagNames =
     (case tagLoop w tr [] tagNames of
        (Inl e, tr1) \<Rightarrow> ([], tr1)
      | (Inr tagIds, tr1) \<Rightarrow> (tagIds, tr1))"

text \<open>\<^verbatim>\<open>uploadImageToWordPress\<close>: the pair is \<^verbatim>\<open>{id, url}\<close>, \<open>None\<close> is \<^verbatim>\<open>null\<close>.\<close>

definition readUpload :: "response option \<Rightarrow> (jsval \<times> jsval) option" where
  "readUpload res =
     (case res of
        None \<Rightarrow> None
      | Some uploadResponse \<Rightarrow>
         if \<not> ok uploadResponse then None
         else (case json uploadResponse of
                 None \<Rightarrow> None
               | Some mediaData \<Rightarrow>
                  (case getProp mediaData ''id'' of
                     Inl e \<Rightarrow> None
                   | Inr i \<Rightarrow>
                      (case getProp mediaData ''source_url'' of
                         Inl e \<Rightarrow> None
                       | Inr u \<Rightarrow> Some (i, u)))))"

definition uploadImageToWordPress ::
  "env \<Rightarrow> event list \<Rightarrow> string \<Rightarrow> string \<Rightarrow> (jsval \<times> jsval) option \<times> event list" where
  "uploadImageToWordPress w tr imageUrl filename =
     (let req1 = ImageGet imageUrl;
          tr1 = tr @ [Fetched req1]
      in case fetch w tr req1 of
           None \<Rightarrow> (None, tr1)
         | Some imageResponse \<Rightarrow>
            if \<not> ok imageResponse then (None, tr1)
            else (case blob imageResponse of
                    None \<Rightarrow> (None, tr1)
                  | Some (ty, bytes) \<Rightarrow>
                     (let req2 = WpMedia (wpAuth w) (if ty = [] then ''image/jpeg'' else ty)
                                   filename bytes
                      in (readUpload (fetch w tr1 req2), tr1 @ [Fetched req2]))))"

text \<open>
  Lines 165-197 of \<^verbatim>\<open>updateWordPressPost\<close>: the object \<^verbatim>\<open>updateData\<close>, its properties
  in the order of their assignment. An optional argument that was left out is
  \<^verbatim>\<open>undefined\<close>: \<open>JUndefined\<close> for an id, \<open>None\<close> for a list, a string or the score.
\<close>

definition seoMeta ::
  "string option \<Rightarrow> string option \<Rightarrow> string list option \<Rightarrow> int option \<Rightarrow> (string \<times> jsval) list" where
  "seoMeta seoTitle seoDescription keywords seoScore =
     [(''rank_math_title'', JStr (orEmpty seoTitle)),
      (''rank_math_description'', JStr (orEmpty seoDescription)),
      (''rank_math_focus_keyword'',
         JStr (case keywords of None \<Rightarrow> [] | Some [] \<Rightarrow> [] | Some (k # ks) \<Rightarrow> k)),
      (''rank_math_score'', JStr (case seoScore of None \<Rightarrow> [] | Some n \<Rightarrow> num_str n))]"

definition seoGiven ::
  "string option \<Rightarrow> string option \<Rightarrow> string list option \<Rightarrow> int option \<Rightarrow> bool" where
  "seoGiven seoTitle seoDescription keywords seoScore =
     (present seoTitle \<or> present seoDescription
      \<or> (case keywords of None \<Rightarrow> False | Some ks \<Rightarrow> length ks > 0)
      \<or> seoScore \<noteq> None)"

definition updateData ::
  "string \<Rightarrow> string \<Rightarrow> jsval \<Rightarrow> jsval \<Rightarrow> jsval \<Rightarrow> jsval list option \<Rightarrow> string \<Rightarrow>
   string option \<Rightarrow> string option \<Rightarrow> string list option \<Rightarrow> int option \<Rightarrow> (string \<times> jsval) list" where
  "updateData title content featuredMediaId authorId categoryId tagIds status
     seoTitle seoDescription keywords seoScore =
     [(''title'', JStr title),
      (''content'', JStr content),
      (''status'', JStr status),
      (''featured_media'', featuredMediaId)]
     @ (if truthy authorId then [(''author'', authorId)] else [])
     @ (if truthy categoryId then [(''categories'', jsonArr [categoryId])] else [])
     @ (case tagIds of
          None \<Rightarrow> []
        | Some ts \<Rightarrow> if length ts > 0 then [(''tags'', jsonArr ts)] else [])
     @ (if seoGiven seoTitle seoDescription keywords seoScore
        then [(''meta'', JObj (seoMeta seoTitle seoDescription keywords seoScore))]
        else [])"

text \<open>The body of the PUT request: \<^verbatim>\<open>JSON.stringify(updateData)\<close>.\<close>

definition putBody ::
  "string \<Rightarrow> string \<Rightarrow> jsval \<Rightarrow> jsval \<Rightarrow> jsval \<Rightarrow> jsval list option \<Rightarrow> string \<Rightarrow>
   string option \<Rightarrow> string option \<Rightarrow> string list option \<Rightarrow> int option \<Rightarrow> jsval" where
  "putBody title content featuredMediaId authorId categoryId tagIds status
     seoTitle seoDescription keywords seoScore =
     jsonObj (updateData title content featuredMediaId authorId categoryId tagIds status
                seoTitle seoDescription keywords seoScore)"

text \<open>Lines 201-228: reading \<^verbatim>\<open>responseData.meta\<close> for the log throws on \<^verbatim>\<open>null\<close>.\<close>

definition readUpdate :: "response option \<Rightarrow> bool" where
  "readUpdate res =
     (case res of
        None \<Rightarrow> False
      | Some updateResponse \<Rightarrow>
         if \<not> ok updateResponse then False
         else (case json updateResponse of
                 None \<Rightarrow> False
               | Some responseData \<Rightarrow>
                  (case getProp responseData ''meta'' of Inl e \<Rightarrow> False | Inr m \<Rightarrow> True)))"

definition updateWordPressPost ::
  "env \<Rightarrow> event list \<Rightarrow> int \<Rightarrow> string \<Rightarrow> string \<Rightarrow> jsval \<Rightarrow> jsval \<Rightarrow> jsval \<Rightarrow>
   jsval list option \<Rightarrow> string \<Rightarrow> string option \<Rightarrow> string option \<Rightarrow> string list option \<Rightarrow>
   int option \<Rightarrow> bool \<times> event list" where
  "updateWordPressPost w tr postId title content featuredMediaId authorId categoryId tagIds
     status seoTitle seoDescription keywords seoScore =
     (let req = WpPostPut (wpAuth w) postId
                  (putBody title content featuredMediaId authorId categoryId tagIds status
                     seoTitle seoDescription keywords seoScore)
      in (readUpdate (fetch w tr req), tr @ [Fetched req]))"

text \<open>
  The body of a publish request, with the types the route hands on to its helpers:
  strings, lists of strings and an integer; an absent property is \<open>None\<close>.
  (\<^verbatim>\<open>selectedAuthorId\<close> is read and never used.)
\<close>

record publish_request =
  pr_postId :: int
  pr_optimizedTitle :: string
  pr_optimizedContent :: string
  pr_suggestedImage :: "string option"
  pr_detectedAuthorId :: string
  pr_seoTitle :: "string option"
  pr_seoDescription :: "string option"
  pr_keywords :: "string list option"
  pr_seoScore :: "int option"
  pr_category :: "string option"
  pr_tags :: "string list option"
  pr_publish :: bool

definition optStr :: "string option \<Rightarrow> jsval" where
  "optStr v = (case v of None \<Rightarrow> JUndefined | Some s \<Rightarrow> JStr s)"

text \<open>Line 273: \<^verbatim>\<open>`featured-image-${postId}-${Date.now()}.jpg`\<close>\<close>

definition featuredFilename :: "env \<Rightarrow> int \<Rightarrow> string" where
  "featuredFilename w postId =
     ''featured-image-'' @ num_str postId @ ''-'' @ nat_str (Date_now w) @ ''.jpg''"

text \<open>Step 1 (lines 266-283): the featured media id and the uploaded URL, both
  \<^verbatim>\<open>undefined\<close> unless the upload gave a result.\<close>

definition imageStage ::
  "env \<Rightarrow> event list \<Rightarrow> publish_request \<Rightarrow> (jsval \<times> jsval) \<times> event list" where
  "imageStage w tr rq =
     (case pr_suggestedImage rq of
        None \<Rightarrow> ((JUndefined, JUndefined), tr)
      | Some suggested \<Rightarrow>
         if suggested \<noteq> [] \<and> trim suggested \<noteq> [] then
           (let uploadResult = uploadImageToWordPress w tr suggested
                                 (featuredFilename w (pr_postId rq))
            in (case fst uploadResult of
                  Some (i, u) \<Rightarrow> (i, u)
                | None \<Rightarrow> (JUndefined, JUndefined),
                snd uploadResult))
         else ((JUndefined, JUndefined), tr))"

text \<open>Step 2 (lines 285-309): author, category and tags.\<close>

definition resolveStage ::
  "env \<Rightarrow> event list \<Rightarrow> publish_request \<Rightarrow> (jsval \<times> jsval \<times> jsval list) \<times> event list" where
  "resolveStage w tr rq =
     (let author = getUserIdByName w tr (pr_detectedAuthorId rq);
          cat = (if present (pr_category rq)
                 then getCategoryIdByName w (snd author) (orEmpty (pr_category rq))
                 else (JUndefined, snd author));
          tagged = (case pr_tags rq of
                      None \<Rightarrow> ([], snd cat)
                    | Some ts \<Rightarrow>
                       if length ts > 0 then getTagIdsByNames w (snd cat) ts else ([], snd cat))
      in ((fst author, fst cat, fst tagged), snd tagged))"

text \<open>Lines 311-324: the call of \<^verbatim>\<open>updateWordPressPost\<close>.\<close>

definition updateStage ::
  "env \<Rightarrow> event list \<Rightarrow> publish_request \<Rightarrow> jsval \<Rightarrow> jsval \<Rightarrow> jsval \<Rightarrow> jsval list \<Rightarrow>
   bool \<times> event list" where
  "updateStage w tr rq featuredMediaId authorId categoryId tagIds =
     updateWordPressPost w tr (pr_postId rq) (pr_optimizedTitle rq) (pr_optimizedContent rq)
       featuredMediaId
       (js_or authorId JUndefined)
       categoryId
       (if length tagIds > 0 then Some tagIds else None)
       (if pr_publish rq then ''publish'' else ''draft'')
       (pr_seoTitle rq) (pr_seoDescription rq) (pr_keywords rq) (pr_seoScore rq)"

definition publishedReply ::
  "publish_request \<Rightarrow> jsval \<Rightarrow> jsval \<Rightarrow> jsval \<Rightarrow> jsval \<Rightarrow> jsval list \<Rightarrow> reply" where
  "publishedReply rq featuredMediaId uploadedImageUrl authorId categoryId tagIds =
     NextResponse_json 200
       [(''success'', JBool True),
        (''data'', jsonObj
           [(''postId'', JNum (pr_postId rq)),
            (''imageUrl'', js_or uploadedImageUrl (optStr (pr_suggestedImage rq))),
            (''featured_media_id'', featuredMediaId),
            (''author_id'', authorId),
            (''category_id'', categoryId),
            (''tag_ids'', jsonArr tagIds),
            (''seo_title'', optStr (pr_seoTitle rq)),
            (''seo_description'', optStr (pr_seoDescription rq)),
            (''detected_author'', JStr (pr_detectedAuthorId rq))])]"

text \<open>Steps 2 to 4, behind the image stage.\<close>

definition resolveAndUpdate ::
  "env \<Rightarrow> event list \<Rightarrow> publish_request \<Rightarrow> jsval \<Rightarrow> jsval \<Rightarrow> reply \<times> event list" where
  "resolveAndUpdate w tr rq featuredMediaId uploadedImageUrl =
     (let resolved = resolveStage w tr rq;
          authorId = fst (fst resolved);
          categoryId = fst (snd (fst resolved));
          tagIds = snd (snd (fst resolved));
          updated = updateStage w (snd resolved) rq featuredMediaId authorId categoryId tagIds
      in if \<not> fst updated then
           (NextResponse_json 500
              [(''success'', JBool False), (''error'', JStr ''Failed to publish post'')],
            snd updated)
         else
           (publishedReply rq featuredMediaId uploadedImageUrl authorId categoryId tagIds,
            snd updated))"

text \<open>\<^verbatim>\<open>POST /api/publish-post\<close>\<close>

definition POST_publish :: "env \<Rightarrow> event list \<Rightarrow> publish_request \<Rightarrow> reply \<times> event list" where
  "POST_publish w tr rq =
     (if fst (wpAuth w) = [] \<or> snd (wpAuth w) = [] then
        (NextResponse_json 400
           [(''success'', JBool False), (''error'', JStr ''Missing WordPress credentials'')], tr)
      else
        (let staged = imageStage w tr rq
         in resolveAndUpdate w (snd staged) rq (fst (fst staged)) (snd (fst staged))))"

section \<open>The post list route\<close>

text \<open>\<^verbatim>\<open>post.title?.rendered || ''\<close>\<close>

definition titleOf :: "jsval \<Rightarrow> exn + jsval" where
  "titleOf post =
     (case getProp post ''title'' of
        Inl e \<Rightarrow> Inl e
      | Inr t \<Rightarrow> Inr (js_or (if nullish t then JUndefined else optProp t ''rendered'') (JStr [])))"

text \<open>
  The comparison of \<^verbatim>\<open>Set.prototype.has\<close> between the titles of two different posts:
  primitive values are compared by value, while two arrays or objects that come out of
  the parser are never the same object.
\<close>

fun sameValueZero :: "jsval \<Rightarrow> jsval \<Rightarrow> bool" where
  "sameValueZero (JArr xs) v = False"
| "sameValueZero (JObj kvs) v = False"
| "sameValueZero u v = (u = v)"

definition seenHas :: "jsval list \<Rightarrow> jsval \<Rightarrow> bool" where
  "seenHas seenTitles t = list_ex (\<lambda>u. sameValueZero u t) seenTitles"

text \<open>Lines 118-126: the \<^verbatim>\<open>filter\<close> with its set \<^verbatim>\<open>seenTitles\<close>.\<close>

fun dedupFrom :: "jsval list \<Rightarrow> jsval list \<Rightarrow> exn + jsval list" where
  "dedupFrom seenTitles [] = Inr []"
| "dedupFrom seenTitles (post # rest) =
     (case titleOf post of
        Inl e \<Rightarrow> Inl e
      | Inr t \<Rightarrow>
         if seenHas seenTitles t then dedupFrom seenTitles rest
         else (case dedupFrom (seenTitles @ [t]) rest of
                 Inl e \<Rightarrow> Inl e
               | Inr kept \<Rightarrow> Inr (post # kept)))"

text \<open>\<^verbatim>\<open>posts.filter(...)\<close>: only an array has \<^verbatim>\<open>filter\<close>.\<close>

definition uniquePosts :: "jsval \<Rightarrow> exn + jsval list" where
  "uniquePosts posts = (case posts of JArr ps \<Rightarrow> dedupFrom [] ps | _ \<Rightarrow> Inl TypeError)"

text \<open>
  \<^verbatim>\<open>GET /api/wp-posts\<close>, with the query parameters \<^verbatim>\<open>status\<close> and \<^verbatim>\<open>per_page\<close>. Of the
  success body \<^verbatim>\<open>success\<close> and \<^verbatim>\<open>data\<close> are modelled; \<^verbatim>\<open>pagination\<close> and
  \<^verbatim>\<open>timestamp\<close> are computed from the response headers, the query and the clock.
\<close>

definition GET_posts ::
  "env \<Rightarrow> event list \<Rightarrow> string option \<Rightarrow> string option \<Rightarrow> reply \<times> event list" where
  "GET_posts w tr statusParam perPageParam =
     (if \<not> present (WORDPRESS_URL w) \<or> \<not> present (WORDPRESS_USERNAME w)
         \<or> \<not> present (WORDPRESS_PASSWORD w) then
        (NextResponse_json 400
           [(''success'', JBool False), (''error'', JStr ''Missing WordPress credentials'')], tr)
      else
        (let req = WpPostsList (orEmpty (WORDPRESS_URL w))
                     (orEmpty (WORDPRESS_USERNAME w), orEmpty (WORDPRESS_PASSWORD w))
                     (if present statusParam then orEmpty statusParam else ''draft'')
                     (if present perPageParam then orEmpty perPageParam else ''100'');
             tr1 = tr @ [Fetched req];
             failed = NextResponse_json 500
                        [(''success'', JBool False), (''error'', JStr ''Failed to fetch posts'')]
         in case fetch w tr req of
              None \<Rightarrow> (failed, tr1)
            | Some r \<Rightarrow>
               if \<not> ok r then (failed, tr1)
               else (case json r of
                       None \<Rightarrow> (failed, tr1)
                     | Some posts \<Rightarrow>
                        (case uniquePosts posts of
                           Inl e \<Rightarrow> (failed, tr1)
                         | Inr kept \<Rightarrow>
                            (NextResponse_json 200
                               [(''success'', JBool True), (''data'', JArr kept)], tr1)))))"

section \<open>The SEO save route\<close>









section \<open>Notions used to state the properties\<close>

text \<open>The value of a property of a JSON object, \<open>None\<close> when the object does not have it.\<close>

fun field :: "jsval \<Rightarrow> string \<Rightarrow> jsval option" where
  "field (JObj kvs) k = map_of kvs k"
| "field v k = None"

text \<open>
  The ways in which the fetch and upload of a featured image fail: the fetch of the
  image is rejected, answers with a status that is no success, or its body cannot be
  read; the upload is rejected or answers with a status that is no success.
\<close>

definition uploadFailure :: "env \<Rightarrow> event list \<Rightarrow> string \<Rightarrow> string \<Rightarrow> bool" where
  "uploadFailure w tr imageUrl filename =
     (case fetch w tr (ImageGet imageUrl) of
        None \<Rightarrow> True
      | Some imageResponse \<Rightarrow>
         (if ok imageResponse then
            (case blob imageResponse of
               None \<Rightarrow> True
             | Some (ty, bytes) \<Rightarrow>
                (case fetch w (tr @ [Fetched (ImageGet imageUrl)])
                        (WpMedia (wpAuth w) (if ty = [] then ''image/jpeg'' else ty) filename bytes) of
                   None \<Rightarrow> True
                 | Some uploadResponse \<Rightarrow> \<not> ok uploadResponse))
          else True))"

section \<open>Concrete environments\<close>

text \<open>
  \<^verbatim>\<open>JSON.parse\<close> on the texts \<^verbatim>\<open>null\<close>, \<^verbatim>\<open>true\<close>, \<^verbatim>\<open>false\<close>, \<^verbatim>\<open>{}\<close>, \<^verbatim>\<open>[]\<close> and on
  unsigned decimal integers without a leading zero. On these it is the platform's
  parser; every other text is refused, which is what the platform does when the text
  is not JSON. It serves to run the routes on such texts.
\<close>

definition isDigit :: "char \<Rightarrow> bool" where
  "isDigit c = (let n = (of_char c :: nat) in 48 \<le> n \<and> n \<le> 57)"

definition digitsValue :: "string \<Rightarrow> int" where
  "digitsValue s = foldl (\<lambda>a c. 10 * a + (int (of_char c) - 48)) 0 s"

definition parseLiteral :: "string \<Rightarrow> jsval option" where
  "parseLiteral s =
     (if s = ''null'' then Some JNull
      else if s = ''true'' then Some (JBool True)
      else if s = ''false'' then Some (JBool False)
      else if s = ''{}'' then Some (JObj [])
      else if s = ''[]'' then Some (JArr [])
      else if s \<noteq> [] \<and> list_all isDigit s \<and> (length s = 1 \<or> hd s \<noteq> CHR ''0'')
        then Some (JNum (digitsValue s))
      else None)"

text \<open>
  In the environments below \<^verbatim>\<open>v > 0\<close> is false on strings, arrays and objects: that is
  the platform's answer on every object and on the strings and arrays that do not
  convert to a positive number, and no other one is compared in the runs that follow.
\<close>

text \<open>No credential at all, every \<^verbatim>\<open>fetch\<close> rejected.\<close>

definition offline :: env where
  "offline =
     \<lparr>OPENAI_API_KEY = None, OPENAI_MODEL = None, PIXABAY_API_KEY = None,
      WORDPRESS_USERNAME = None, WORDPRESS_PASSWORD = None, WORDPRESS_URL = None,
      fetch = (\<lambda>tr req. None), JSON_parse = parseLiteral, js_positive = (\<lambda>v. False),
      Date_now = 0\<rparr>"

text \<open>All credentials set; the remote side answers every request with the given status
  and body.\<close>

definition answering :: "nat \<Rightarrow> jsval option \<Rightarrow> env" where
  "answering st body =
     \<lparr>OPENAI_API_KEY = Some ''sk'', OPENAI_MODEL = None, PIXABAY_API_KEY = Some ''px'',
      WORDPRESS_USERNAME = Some ''editor'', WORDPRESS_PASSWORD = Some ''secret'',
      WORDPRESS_URL = Some ''https://digitalchew.com'',
      fetch = (\<lambda>tr req. Some \<lparr>statusCode = st, json = body, blob = None\<rparr>),
      JSON_parse = parseLiteral, js_positive = (\<lambda>v. False), Date_now = 0\<rparr>"

text \<open>All credentials set; the image cannot be fetched (404), the lookups find the id 3,
  every other request succeeds with an empty object.\<close>

definition imageMissing :: env where
  "imageMissing =
     \<lparr>OPENAI_API_KEY = Some ''sk'', OPENAI_MODEL = None, PIXABAY_API_KEY = Some ''px'',
      WORDPRESS_USERNAME = Some ''editor'', WORDPRESS_PASSWORD = Some ''secret'',
      WORDPRESS_URL = Some ''https://digitalchew.com'',
      fetch = (\<lambda>tr req.
         case req of
           ImageGet u \<Rightarrow> Some \<lparr>statusCode = 404, json = None, blob = None\<rparr>
         | WpUsers a slug \<Rightarrow>
             Some \<lparr>statusCode = 200, json = Some (JArr [JObj [(''id'', JNum 3)]]), blob = None\<rparr>
         | WpCategories a slug \<Rightarrow>
             Some \<lparr>statusCode = 200, json = Some (JArr [JObj [(''id'', JNum 3)]]), blob = None\<rparr>
         | WpTags a slug \<Rightarrow>
             Some \<lparr>statusCode = 200, json = Some (JArr [JObj [(''id'', JNum 3)]]), blob = None\<rparr>
         | _ \<Rightarrow> Some \<lparr>statusCode = 200, json = Some (JObj []), blob = None\<rparr>),
      JSON_parse = parseLiteral, js_positive = (\<lambda>v. False), Date_now = 0\<rparr>"

text \<open>A publish request for post 7, with an image, a category and no tags.\<close>

definition samplePublish :: publish_request where
  "samplePublish =
     \<lparr>pr_postId = 7, pr_optimizedTitle = ''Title'', pr_optimizedContent = ''<p>Body</p>'',
      pr_suggestedImage = Some ''https://pixabay.com/get/1.jpg'',
      pr_detectedAuthorId = ''jmason'',
      pr_seoTitle = Some ''SEO title'', pr_seoDescription = None,
      pr_keywords = None, pr_seoScore = None,
      pr_category = Some ''AI & Robotics'', pr_tags = None, pr_publish = False\<rparr>"

text \<open>A post as the list endpoint returns it, reduced to its id and rendered title, and a
  list in which the title of the first post comes back in the third.\<close>

definition wpPost :: "int \<Rightarrow> string \<Rightarrow> jsval" where
  "wpPost i t = JObj [(''id'', JNum i), (''title'', JObj [(''rendered'', JStr t)])]"

definition samplePosts :: "jsval list" where
  "samplePosts = [wpPost 1 ''Hello'', wpPost 2 ''World'', wpPost 3 ''Hello'', wpPost 4 []]"






section \<open>Image search: queries that are never sent\<close>

text \<open>
  C9. When no image-search credential is configured, whatever the argument, and when the
  trimmed query has fewer than 3 characters, \<^verbatim>\<open>searchPixabay\<close> returns \<^verbatim>\<open>null\<close>: it does
  not throw, and the run records the call and no request.
\<close>

theorem search_none_without_request:
  "(\<not> present (PIXABAY_API_KEY w) \<longrightarrow>
      searchPixabay w tr v = (Inr None, tr @ [SearchPixabayCalled v]))
   \<and> (length (trim q) < 3 \<longrightarrow>
      searchPixabay w tr (JStr q) = (Inr None, tr @ [SearchPixabayCalled (JStr q)]))"
  by (auto simp: searchPixabay_def Let_def)

theorem search_none_without_request_witness:
  "\<not> present (PIXABAY_API_KEY offline)
   \<and> searchPixabay offline [] (JStr ''mountain lake at dawn'')
       = (Inr None, [SearchPixabayCalled (JStr ''mountain lake at dawn'')])
   \<and> present (PIXABAY_API_KEY (answering 200 None))
   \<and> length (trim ''  ai '') < 3
   \<and> searchPixabay (answering 200 None) [] (JStr ''  ai '')
       = (Inr None, [SearchPixabayCalled (JStr ''  ai '')])"
proof -
  have 1: "\<not> present (PIXABAY_API_KEY offline)" by (simp add: offline_def present_def)
  have 2: "present (PIXABAY_API_KEY (answering 200 None))" by (simp add: answering_def present_def)
  have 3: "length (trim ''  ai '') < 3" by code_simp
  from search_none_without_request [of offline "[]" "JStr ''mountain lake at dawn''" "[]"] 1
  have 4: "searchPixabay offline [] (JStr ''mountain lake at dawn'')
       = (Inr None, [SearchPixabayCalled (JStr ''mountain lake at dawn'')])" by simp
  from search_none_without_request [of "answering 200 None" "[]" JNull "''  ai ''"] 3
  have 5: "searchPixabay (answering 200 None) [] (JStr ''  ai '')
       = (Inr None, [SearchPixabayCalled (JStr ''  ai '')])" by simp
  from 1 2 3 4 5 show ?thesis by blast
qed

section \<open>Image search: the query that is sent\<close>













section \<open>Category lookup\<close>




section \<open>Code fences around the generation response\<close>



































section \<open>The optimize route without a credential, and with an unreadable answer\<close>

lemma searchPixabay_string:
  "\<exists>im rest. searchPixabay w tr (JStr q) = (Inr im, tr @ SearchPixabayCalled (JStr q) # rest)
      \<and> (rest = [] \<or> (\<exists>req. rest = [Fetched req]))"
  by (simp add: searchPixabay_def Let_def)

text \<open>
  C2, as the code has it. Without a generation credential \<^verbatim>\<open>optimizeWithAI\<close> itself
  returns the mock result, whose SEO title has at most 60 and whose SEO description has
  at most 160 characters, and calls the image search once, with the title stripped of
  its tags and trimmed (that call sends at most one request). The route, however,
  answers 400 before it calls \<^verbatim>\<open>optimizeWithAI\<close>: it returns no result and calls no
  image search.
\<close>

theorem no_key_optimize:
  assumes "\<not> present (OPENAI_API_KEY w)"
  shows "POST_optimize w tr title content excerpt
           = (NextResponse_json 400
                [(''success'', JBool False), (''error'', JStr ''Missing OpenAI API key'')], tr)
         \<and> (\<exists>im rest.
               optimizeWithAI w tr title content excerpt
                 = (Inr (mockResult title content excerpt im),
                    tr @ SearchPixabayCalled (JStr (trim (stripTags title))) # rest)
               \<and> (rest = [] \<or> (\<exists>req. rest = [Fetched req]))
               \<and> (\<exists>s. opt_seoTitle (mockResult title content excerpt im) = JStr s \<and> length s \<le> 60)
               \<and> (\<exists>s. opt_seoDescription (mockResult title content excerpt im) = JStr s
                        \<and> length s \<le> 160))"
proof -
  obtain im rest where
    s: "searchPixabay w tr (JStr (trim (stripTags title)))
          = (Inr im, tr @ SearchPixabayCalled (JStr (trim (stripTags title))) # rest)"
    and r: "rest = [] \<or> (\<exists>req. rest = [Fetched req])"
    using searchPixabay_string by blast
  have 1: "optimizeWithAI w tr title content excerpt
             = (Inr (mockResult title content excerpt im),
                tr @ SearchPixabayCalled (JStr (trim (stripTags title))) # rest)"
    using assms s by (simp add: optimizeWithAI_def Let_def)
  have 2: "\<exists>s. opt_seoTitle (mockResult title content excerpt im) = JStr s \<and> length s \<le> 60"
    by (simp add: mockResult_def Let_def)
  have 3: "\<exists>s. opt_seoDescription (mockResult title content excerpt im) = JStr s \<and> length s \<le> 160"
    by (simp add: mockResult_def Let_def)
  have 0: "POST_optimize w tr title content excerpt
           = (NextResponse_json 400
                [(''success'', JBool False), (''error'', JStr ''Missing OpenAI API key'')], tr)"
    using assms by (simp add: POST_optimize_def)
  from 0 1 2 3 r show ?thesis by blast
qed

text \<open>A run without any credential.\<close>

theorem no_key_optimize_witness:
  "\<not> present (OPENAI_API_KEY offline)
   \<and> fst (POST_optimize offline [] ''<b>Hello</b> world'' ''body'' ''<p>ex</p>'')
       = (400, JObj [(''success'', JBool False), (''error'', JStr ''Missing OpenAI API key'')])
   \<and> optimizeWithAI offline [] ''<b>Hello</b> world'' ''body'' ''<p>ex</p>''
       = (Inr (mockResult ''<b>Hello</b> world'' ''body'' ''<p>ex</p>'' None),
          [SearchPixabayCalled (JStr ''Hello world'')])
   \<and> opt_seoTitle (mockResult ''<b>Hello</b> world'' ''body'' ''<p>ex</p>'' None) = JStr ''Hello world''
   \<and> opt_seoDescription (mockResult ''<b>Hello</b> world'' ''body'' ''<p>ex</p>'' None) = JStr ''ex''"
proof -
  have k: "\<not> present (OPENAI_API_KEY offline)" by (simp add: offline_def present_def)
  from no_key_optimize [OF k, of "[]" "''<b>Hello</b> world''" "''body''" "''<p>ex</p>''"]
  have "POST_optimize offline [] ''<b>Hello</b> world'' ''body'' ''<p>ex</p>''
          = (NextResponse_json 400
               [(''success'', JBool False), (''error'', JStr ''Missing OpenAI API key'')], [])"
    by (rule conjunct1)
  then have 1: "fst (POST_optimize offline [] ''<b>Hello</b> world'' ''body'' ''<p>ex</p>'')
       = (400, JObj [(''success'', JBool False), (''error'', JStr ''Missing OpenAI API key'')])"
    by (simp add: NextResponse_json_def jsonObj_def)
  have 2: "optimizeWithAI offline [] ''<b>Hello</b> world'' ''body'' ''<p>ex</p>''
       = (Inr (mockResult ''<b>Hello</b> world'' ''body'' ''<p>ex</p>'' None),
          [SearchPixabayCalled (JStr ''Hello world'')])"
    by code_simp
  have 3: "opt_seoTitle (mockResult ''<b>Hello</b> world'' ''body'' ''<p>ex</p>'' None) = JStr ''Hello world''"
    by code_simp
  have 4: "opt_seoDescription (mockResult ''<b>Hello</b> world'' ''body'' ''<p>ex</p>'' None) = JStr ''ex''"
    by code_simp
  from k 1 2 3 4 show ?thesis by blast
qed

text \<open>
  C2 as stated fails on the route: without a generation credential the request is
  refused, and the run records no call of the image search.
\<close>

theorem no_key_endpoint_rejects:
  "\<not> present (OPENAI_API_KEY offline)
   \<and> POST_optimize offline [] ''<b>Hello</b> world'' ''body'' ''<p>ex</p>''
       = ((400, JObj [(''success'', JBool False), (''error'', JStr ''Missing OpenAI API key'')]), [])"
  by code_simp




section \<open>The publish route: a failed image, and the body of the update\<close>

lemma upload_none:
  "uploadFailure w tr u fn \<Longrightarrow> fst (uploadImageToWordPress w tr u fn) = None"
  by (auto simp: uploadFailure_def uploadImageToWordPress_def readUpload_def Let_def
           split: option.splits if_splits prod.splits)

lemma upload_trace:
  "\<exists>ext. snd (uploadImageToWordPress w tr u fn) = tr @ Fetched (ImageGet u) # ext"
  by (auto simp: uploadImageToWordPress_def Let_def split: option.splits prod.splits)


lemma tagLoop_trace: "\<exists>ext. snd (tagLoop w tr ids ns) = tr @ ext"
proof (induction ns arbitrary: tr ids)
  case Nil
  show ?case by simp
next
  case (Cons n ns)
  let ?tr1 = "tr @ [Fetched (WpTags (wpAuth w) (slugify n))]"
  have step: "\<exists>ext. snd (tagLoop w ?tr1 ids' ns) = tr @ ext" for ids'
  proof -
    from Cons.IH [of ?tr1 ids'] obtain e where "snd (tagLoop w ?tr1 ids' ns) = ?tr1 @ e" by blast
    then show ?thesis by simp
  qed
  show ?case
  proof (cases "fetch w tr (WpTags (wpAuth w) (slugify n))")
    case None
    then show ?thesis by (simp add: Let_def)
  next
    case (Some r)
    show ?thesis
    proof (cases "ok r")
      case False
      with Some step [of ids] show ?thesis by (simp add: Let_def)
    next
      case True
      show ?thesis
      proof (cases "json r")
        case None
        with Some True show ?thesis by (simp add: Let_def)
      next
        case (Some found)
        show ?thesis
        proof (cases "js_length found")
          case (Inl e)
          with \<open>fetch w tr (WpTags (wpAuth w) (slugify n)) = Some r\<close> True Some
          show ?thesis by (simp add: Let_def)
        next
          case (Inr len)
          show ?thesis
          proof (cases "gt0 w len")
            case False
            with \<open>fetch w tr (WpTags (wpAuth w) (slugify n)) = Some r\<close> True Some Inr step [of ids]
            show ?thesis by (simp add: Let_def)
          next
            case gt: True
            show ?thesis
            proof (cases "getProp (optIndex0 found) ''id''")
              case (Inl e)
              with \<open>fetch w tr (WpTags (wpAuth w) (slugify n)) = Some r\<close> True Some Inr gt
              show ?thesis by (simp add: Let_def)
            next
              case i: (Inr i)
              with \<open>fetch w tr (WpTags (wpAuth w) (slugify n)) = Some r\<close> True Some Inr gt
                step [of "ids @ [i]"]
              show ?thesis by (simp add: Let_def)
            qed
          qed
        qed
      qed
    qed
  qed
qed

lemma getTagIds_trace: "\<exists>ext. snd (getTagIdsByNames w tr ns) = tr @ ext"
proof -
  have "snd (getTagIdsByNames w tr ns) = snd (tagLoop w tr [] ns)"
    by (simp add: getTagIdsByNames_def split: prod.splits sum.splits)
  then show ?thesis using tagLoop_trace by simp
qed

lemma category_trace:
  "\<exists>e. snd (if present c then getCategoryIdByName w tr (orEmpty c) else (JUndefined, tr)) = tr @ e"
  by (simp add: getCategoryIdByName_def Let_def)

lemma tags_trace:
  "\<exists>e. snd (case ts of None \<Rightarrow> ([], tr)
                | Some xs \<Rightarrow> if length xs > 0 then getTagIdsByNames w tr xs else ([], tr)) = tr @ e"
proof (cases ts)
  case None
  then show ?thesis by simp
next
  case (Some xs)
  then show ?thesis using getTagIds_trace [of w tr xs] by (cases "length xs > 0") simp_all
qed

lemma resolveStage_trace:
  "\<exists>ext. snd (resolveStage w tr rq) = tr @ Fetched (WpUsers (wpAuth w) (pr_detectedAuthorId rq)) # ext"
proof -
  let ?tr1 = "tr @ [Fetched (WpUsers (wpAuth w) (pr_detectedAuthorId rq))]"
  define cr where "cr = (if present (pr_category rq)
                 then getCategoryIdByName w ?tr1 (orEmpty (pr_category rq))
                 else (JUndefined, ?tr1))"
  obtain e2 where e2: "snd cr = ?tr1 @ e2" unfolding cr_def using category_trace by blast
  define tg where "tg = (case pr_tags rq of
                        None \<Rightarrow> ([], snd cr)
                      | Some ts \<Rightarrow> if length ts > 0 then getTagIdsByNames w (snd cr) ts else ([], snd cr))"
  obtain e3 where e3: "snd tg = snd cr @ e3" unfolding tg_def using tags_trace by blast
  have "snd (resolveStage w tr rq) = snd tg"
    unfolding resolveStage_def getUserIdByName_def Let_def cr_def tg_def
    by (cases "pr_tags rq") simp_all
  then show ?thesis using e2 e3 by simp
qed

lemma resolveAndUpdate_trace:
  "\<exists>rest authorId categoryId tagIds.
     snd (resolveAndUpdate w tr rq fm up)
       = tr @ Fetched (WpUsers (wpAuth w) (pr_detectedAuthorId rq)) # rest
            @ [Fetched (WpPostPut (wpAuth w) (pr_postId rq)
                 (putBody (pr_optimizedTitle rq) (pr_optimizedContent rq) fm authorId categoryId tagIds
                    (if pr_publish rq then ''publish'' else ''draft'')
                    (pr_seoTitle rq) (pr_seoDescription rq) (pr_keywords rq) (pr_seoScore rq)))]"
proof -
  obtain ext where e: "snd (resolveStage w tr rq)
      = tr @ Fetched (WpUsers (wpAuth w) (pr_detectedAuthorId rq)) # ext"
    using resolveStage_trace by blast
  show ?thesis
    unfolding resolveAndUpdate_def updateStage_def updateWordPressPost_def Let_def
    using e by (simp split: if_splits) blast
qed

lemma field_jsonObj:
  "field (jsonObj kvs) k = map_of (filter (\<lambda>kv. snd kv \<noteq> JUndefined) kvs) k"
  by (simp add: jsonObj_def)

lemma putBody_no_media:
  "field (putBody title content JUndefined authorId categoryId tagIds status
            seoTitle seoDescription kws seoScore) ''featured_media'' = None"
  by (simp add: putBody_def updateData_def field_jsonObj jsonArr_def split: option.splits)

text \<open>
  C3. With credentials and a suggested image that is not blank, whenever the fetch or
  the upload of the image fails, the image stage ends with no featured media id, the
  route goes on with the resolution and the update, and the run shows it: behind the
  requests of the image stage come the lookup of the author, the other lookups, and
  last the PUT of the post, whose body has no \<^verbatim>\<open>featured_media\<close>.
\<close>

theorem upload_failure_continues:
  assumes "fst (wpAuth w) \<noteq> []" and "snd (wpAuth w) \<noteq> []"
    and "pr_suggestedImage rq = Some u" and "trim u \<noteq> []"
    and "uploadFailure w tr u (featuredFilename w (pr_postId rq))"
  shows "\<exists>ext rest authorId categoryId tagIds body.
           imageStage w tr rq = ((JUndefined, JUndefined), tr @ Fetched (ImageGet u) # ext)
         \<and> POST_publish w tr rq
             = resolveAndUpdate w (tr @ Fetched (ImageGet u) # ext) rq JUndefined JUndefined
         \<and> body = putBody (pr_optimizedTitle rq) (pr_optimizedContent rq) JUndefined
                      authorId categoryId tagIds (if pr_publish rq then ''publish'' else ''draft'')
                      (pr_seoTitle rq) (pr_seoDescription rq) (pr_keywords rq) (pr_seoScore rq)
         \<and> snd (POST_publish w tr rq)
             = tr @ Fetched (ImageGet u) # ext
                  @ Fetched (WpUsers (wpAuth w) (pr_detectedAuthorId rq)) # rest
                  @ [Fetched (WpPostPut (wpAuth w) (pr_postId rq) body)]
         \<and> field body ''featured_media'' = None"
proof -
  let ?fn = "featuredFilename w (pr_postId rq)"
  have une: "u \<noteq> []" using assms(4) by (auto simp: trim_def trimStart_def trimEnd_def)
  have none: "fst (uploadImageToWordPress w tr u ?fn) = None"
    using assms(5) by (rule upload_none)
  obtain ext where ext: "snd (uploadImageToWordPress w tr u ?fn) = tr @ Fetched (ImageGet u) # ext"
    using upload_trace by blast
  have stage: "imageStage w tr rq = ((JUndefined, JUndefined), tr @ Fetched (ImageGet u) # ext)"
    using assms(3,4) une none ext by (simp add: imageStage_def Let_def)
  have post: "POST_publish w tr rq
             = resolveAndUpdate w (tr @ Fetched (ImageGet u) # ext) rq JUndefined JUndefined"
    using assms(1,2) stage by (simp add: POST_publish_def Let_def)
  from resolveAndUpdate_trace [of w "tr @ Fetched (ImageGet u) # ext" rq JUndefined JUndefined]
  obtain rest authorId categoryId tagIds where
    t: "snd (resolveAndUpdate w (tr @ Fetched (ImageGet u) # ext) rq JUndefined JUndefined)
       = (tr @ Fetched (ImageGet u) # ext) @ Fetched (WpUsers (wpAuth w) (pr_detectedAuthorId rq)) # rest
            @ [Fetched (WpPostPut (wpAuth w) (pr_postId rq)
                 (putBody (pr_optimizedTitle rq) (pr_optimizedContent rq) JUndefined authorId categoryId tagIds
                    (if pr_publish rq then ''publish'' else ''draft'')
                    (pr_seoTitle rq) (pr_seoDescription rq) (pr_keywords rq) (pr_seoScore rq)))]"
    by blast
  show ?thesis
    apply (rule exI [of _ ext], rule exI [of _ rest], rule exI [of _ authorId],
           rule exI [of _ categoryId], rule exI [of _ tagIds])
    using stage post t putBody_no_media by simp
qed

lemma samplePublish_run:
  "POST_publish imageMissing [] samplePublish =
    ((200, JObj [(''success'', JBool True),
        (''data'', JObj [(''postId'', JNum 7), (''imageUrl'', JStr ''https://pixabay.com/get/1.jpg''),
           (''author_id'', JNum 3), (''category_id'', JNum 3), (''tag_ids'', JArr []),
           (''seo_title'', JStr ''SEO title''), (''detected_author'', JStr ''jmason'')])]),
     [Fetched (ImageGet ''https://pixabay.com/get/1.jpg''),
      Fetched (WpUsers (''editor'', ''secret'') ''jmason''),
      Fetched (WpCategories (''editor'', ''secret'') ''ai---robotics''),
      Fetched (WpPostPut (''editor'', ''secret'') 7
        (JObj [(''title'', JStr ''Title''), (''content'', JStr ''<p>Body</p>''),
               (''status'', JStr ''draft''), (''author'', JNum 3), (''categories'', JArr [JNum 3]),
               (''meta'', JObj [(''rank_math_title'', JStr ''SEO title''),
                                (''rank_math_description'', JStr []),
                                (''rank_math_focus_keyword'', JStr []),
                                (''rank_math_score'', JStr [])])]))])"
  by code_simp

text \<open>The image answers 404; the post is updated all the same.\<close>

theorem upload_failure_continues_witness:
  "fst (wpAuth imageMissing) \<noteq> [] \<and> snd (wpAuth imageMissing) \<noteq> []
   \<and> pr_suggestedImage samplePublish = Some ''https://pixabay.com/get/1.jpg''
   \<and> trim ''https://pixabay.com/get/1.jpg'' \<noteq> []
   \<and> uploadFailure imageMissing [] ''https://pixabay.com/get/1.jpg''
         (featuredFilename imageMissing (pr_postId samplePublish))
   \<and> fst (imageStage imageMissing [] samplePublish) = (JUndefined, JUndefined)
   \<and> snd (POST_publish imageMissing [] samplePublish) =
       [Fetched (ImageGet ''https://pixabay.com/get/1.jpg''),
        Fetched (WpUsers (''editor'', ''secret'') ''jmason''),
        Fetched (WpCategories (''editor'', ''secret'') ''ai---robotics''),
        Fetched (WpPostPut (''editor'', ''secret'') 7
          (JObj [(''title'', JStr ''Title''), (''content'', JStr ''<p>Body</p>''),
                 (''status'', JStr ''draft''), (''author'', JNum 3), (''categories'', JArr [JNum 3]),
                 (''meta'', JObj [(''rank_math_title'', JStr ''SEO title''),
                                  (''rank_math_description'', JStr []),
                                  (''rank_math_focus_keyword'', JStr []),
                                  (''rank_math_score'', JStr [])])]))]"
proof -
  let ?u = "''https://pixabay.com/get/1.jpg''"
  have 1: "fst (wpAuth imageMissing) \<noteq> []" by (simp add: wpAuth_def imageMissing_def orEmpty_def)
  have 2: "snd (wpAuth imageMissing) \<noteq> []" by (simp add: wpAuth_def imageMissing_def orEmpty_def)
  have 3: "pr_suggestedImage samplePublish = Some ?u" by (simp add: samplePublish_def)
  have 4: "trim ?u \<noteq> []" by code_simp
  have 5: "uploadFailure imageMissing [] ?u (featuredFilename imageMissing (pr_postId samplePublish))"
    by (simp add: uploadFailure_def imageMissing_def ok_def)
  from upload_failure_continues [OF 1 2 3 4 5]
  have 6: "fst (imageStage imageMissing [] samplePublish) = (JUndefined, JUndefined)" by auto
  have 7: "snd (POST_publish imageMissing [] samplePublish) =
       [Fetched (ImageGet ''https://pixabay.com/get/1.jpg''),
        Fetched (WpUsers (''editor'', ''secret'') ''jmason''),
        Fetched (WpCategories (''editor'', ''secret'') ''ai---robotics''),
        Fetched (WpPostPut (''editor'', ''secret'') 7
          (JObj [(''title'', JStr ''Title''), (''content'', JStr ''<p>Body</p>''),
                 (''status'', JStr ''draft''), (''author'', JNum 3), (''categories'', JArr [JNum 3]),
                 (''meta'', JObj [(''rank_math_title'', JStr ''SEO title''),
                                  (''rank_math_description'', JStr []),
                                  (''rank_math_focus_keyword'', JStr []),
                                  (''rank_math_score'', JStr [])])]))]"
    by (simp add: samplePublish_run)
  from 1 2 3 4 5 6 7 show ?thesis by blast
qed









section \<open>The post list: one post for each title\<close>

lemma seenHas_append: "seenHas (seen @ [k]) t = (seenHas seen t \<or> sameValueZero k t)"
  by (auto simp: seenHas_def list_ex_iff)

lemma sameValueZero_string: "sameValueZero k (JStr t) = (k = JStr t)"
  by (cases k) auto

lemma dedupFrom_subseq:
  "dedupFrom seen ps = Inr kept \<Longrightarrow> subseq kept ps"
proof (induction ps arbitrary: seen kept)
  case Nil
  then show ?case by simp
next
  case (Cons p ps)
  from Cons.prems obtain k where k: "titleOf p = Inr k" by (cases "titleOf p") auto
  show ?case
  proof (cases "seenHas seen k")
    case True
    with Cons.prems k have "dedupFrom seen ps = Inr kept" by simp
    then have "subseq kept ps" by (rule Cons.IH)
    then show ?thesis by (rule list_emb_Cons)
  next
    case False
    with Cons.prems k obtain kept' where
      r: "dedupFrom (seen @ [k]) ps = Inr kept'" and kept: "kept = p # kept'"
      by (cases "dedupFrom (seen @ [k]) ps") auto
    from Cons.IH [OF r] show ?thesis unfolding kept by simp
  qed
qed

lemma dedupFrom_first:
  "dedupFrom seen ps = Inr kept \<Longrightarrow>
   filter (\<lambda>p. titleOf p = Inr (JStr t)) kept
     = (if seenHas seen (JStr t) then []
        else (case find (\<lambda>p. titleOf p = Inr (JStr t)) ps of None \<Rightarrow> [] | Some p \<Rightarrow> [p]))"
proof (induction ps arbitrary: seen kept)
  case Nil
  then show ?case by simp
next
  case (Cons p ps)
  from Cons.prems obtain k where k: "titleOf p = Inr k" by (cases "titleOf p") auto
  show ?case
  proof (cases "seenHas seen k")
    case True
    with Cons.prems k have r: "dedupFrom seen ps = Inr kept" by simp
    show ?thesis using Cons.IH [OF r] k True by auto
  next
    case False
    with Cons.prems k obtain kept' where
      r: "dedupFrom (seen @ [k]) ps = Inr kept'" and kept: "kept = p # kept'"
      by (cases "dedupFrom (seen @ [k]) ps") auto
    show ?thesis
      using Cons.IH [OF r] k False unfolding kept
      by (auto simp: seenHas_append sameValueZero_string)
  qed
qed

lemma dedupFrom_idem:
  "dedupFrom seen ps = Inr kept \<Longrightarrow> dedupFrom seen kept = Inr kept"
proof (induction ps arbitrary: seen kept)
  case Nil
  then show ?case by simp
next
  case (Cons p ps)
  from Cons.prems obtain k where k: "titleOf p = Inr k" by (cases "titleOf p") auto
  show ?case
  proof (cases "seenHas seen k")
    case True
    with Cons.prems k have r: "dedupFrom seen ps = Inr kept" by simp
    then show ?thesis by (rule Cons.IH)
  next
    case False
    with Cons.prems k obtain kept' where
      r: "dedupFrom (seen @ [k]) ps = Inr kept'" and kept: "kept = p # kept'"
      by (cases "dedupFrom (seen @ [k]) ps") auto
    show ?thesis using Cons.IH [OF r] k False unfolding kept by simp
  qed
qed

lemma seenHas_Nil: "\<not> seenHas [] t"
  by (simp add: seenHas_def)

text \<open>
  C4. When the filter of the post list runs through (no post is \<^verbatim>\<open>null\<close>), the posts
  it keeps are posts of the response in the order of the response; for every title the
  kept posts with that rendered title are the first post of the response with that
  title and no other; filtering the kept posts again keeps them all. With credentials
  and a successful answer that is this list, the route returns the kept posts as
  \<^verbatim>\<open>data\<close>.
\<close>

theorem posts_deduplicated:
  assumes "uniquePosts (JArr ps) = Inr kept"
  shows "subseq kept ps
       \<and> (\<forall>t. filter (\<lambda>p. titleOf p = Inr (JStr t)) kept
               = (case find (\<lambda>p. titleOf p = Inr (JStr t)) ps of None \<Rightarrow> [] | Some p \<Rightarrow> [p]))
       \<and> uniquePosts (JArr kept) = Inr kept
       \<and> (present (WORDPRESS_URL w) \<and> present (WORDPRESS_USERNAME w) \<and> present (WORDPRESS_PASSWORD w)
           \<and> (\<exists>r. fetch w tr (WpPostsList (orEmpty (WORDPRESS_URL w))
                        (orEmpty (WORDPRESS_USERNAME w), orEmpty (WORDPRESS_PASSWORD w))
                        (if present statusParam then orEmpty statusParam else ''draft'')
                        (if present perPageParam then orEmpty perPageParam else ''100'')) = Some r
                  \<and> ok r \<and> json r = Some (JArr ps))
           \<longrightarrow> fst (GET_posts w tr statusParam perPageParam)
                 = NextResponse_json 200 [(''success'', JBool True), (''data'', JArr kept)])"
proof -
  from assms have d: "dedupFrom [] ps = Inr kept" by (simp add: uniquePosts_def)
  have 1: "subseq kept ps" using d by (rule dedupFrom_subseq)
  have 2: "\<forall>t. filter (\<lambda>p. titleOf p = Inr (JStr t)) kept
               = (case find (\<lambda>p. titleOf p = Inr (JStr t)) ps of None \<Rightarrow> [] | Some p \<Rightarrow> [p])"
    using dedupFrom_first [OF d] by (simp add: seenHas_Nil)
  have 3: "uniquePosts (JArr kept) = Inr kept"
    using dedupFrom_idem [OF d] by (simp add: uniquePosts_def)
  have 4: "present (WORDPRESS_URL w) \<and> present (WORDPRESS_USERNAME w) \<and> present (WORDPRESS_PASSWORD w)
           \<and> (\<exists>r. fetch w tr (WpPostsList (orEmpty (WORDPRESS_URL w))
                        (orEmpty (WORDPRESS_USERNAME w), orEmpty (WORDPRESS_PASSWORD w))
                        (if present statusParam then orEmpty statusParam else ''draft'')
                        (if present perPageParam then orEmpty perPageParam else ''100'')) = Some r
                  \<and> ok r \<and> json r = Some (JArr ps))
           \<longrightarrow> fst (GET_posts w tr statusParam perPageParam)
                 = NextResponse_json 200 [(''success'', JBool True), (''data'', JArr kept)]"
    using assms by (auto simp: GET_posts_def Let_def)
  from 1 2 3 4 show ?thesis by blast
qed


text \<open>
  Four posts, the third with the title of the first, the fourth without a title, and the
  route answering with the three that are kept.
\<close>

theorem posts_deduplicated_witness:
  "uniquePosts (JArr samplePosts) = Inr [wpPost 1 ''Hello'', wpPost 2 ''World'', wpPost 4 []]
   \<and> subseq [wpPost 1 ''Hello'', wpPost 2 ''World'', wpPost 4 []] samplePosts
   \<and> uniquePosts (JArr [wpPost 1 ''Hello'', wpPost 2 ''World'', wpPost 4 []])
       = Inr [wpPost 1 ''Hello'', wpPost 2 ''World'', wpPost 4 []]
   \<and> filter (\<lambda>p. titleOf p = Inr (JStr ''Hello'')) [wpPost 1 ''Hello'', wpPost 2 ''World'', wpPost 4 []]
       = [wpPost 1 ''Hello'']
   \<and> fst (GET_posts (answering 200 (Some (JArr samplePosts))) [] None None)
       = (200, JObj [(''success'', JBool True),
                     (''data'', JArr [wpPost 1 ''Hello'', wpPost 2 ''World'', wpPost 4 []])])"
proof -
  let ?w = "answering 200 (Some (JArr samplePosts))"
  let ?kept = "[wpPost 1 ''Hello'', wpPost 2 ''World'', wpPost 4 []]"
  have 1: "uniquePosts (JArr samplePosts) = Inr ?kept"
    by code_simp
  have f: "find (\<lambda>p. titleOf p = Inr (JStr ''Hello'')) samplePosts = Some (wpPost 1 ''Hello'')"
    by code_simp
  note t = posts_deduplicated [OF 1, of ?w "[]" None None]
  from t have 2: "subseq ?kept samplePosts" by blast
  from t have 3: "uniquePosts (JArr ?kept) = Inr ?kept" by blast
  from t have "filter (\<lambda>p. titleOf p = Inr (JStr ''Hello'')) ?kept
       = (case find (\<lambda>p. titleOf p = Inr (JStr ''Hello'')) samplePosts of None \<Rightarrow> [] | Some p \<Rightarrow> [p])"
    by blast
  then have 4: "filter (\<lambda>p. titleOf p = Inr (JStr ''Hello'')) ?kept = [wpPost 1 ''Hello'']"
    unfolding f by simp
  have c: "present (WORDPRESS_URL ?w) \<and> present (WORDPRESS_USERNAME ?w) \<and> present (WORDPRESS_PASSWORD ?w)"
    by (simp add: answering_def present_def)
  have r: "\<exists>r. fetch ?w [] (WpPostsList (orEmpty (WORDPRESS_URL ?w))
                        (orEmpty (WORDPRESS_USERNAME ?w), orEmpty (WORDPRESS_PASSWORD ?w))
                        (if present None then orEmpty None else ''draft'')
                        (if present None then orEmpty None else ''100'')) = Some r
                  \<and> ok r \<and> json r = Some (JArr samplePosts)"
    by (simp add: answering_def ok_def)
  from t c r have "fst (GET_posts ?w [] None None)
       = NextResponse_json 200 [(''success'', JBool True), (''data'', JArr ?kept)]" by blast
  then have 5: "fst (GET_posts ?w [] None None)
       = (200, JObj [(''success'', JBool True), (''data'', JArr ?kept)])"
    by (simp add: NextResponse_json_def jsonObj_def)
  from 1 2 3 4 5 show ?thesis by blast
qed

section \<open>The SEO save route: what it reports\<close>






end
